theory Spec2Isabelle
  imports Main "HOL-Library.AList"
begin

section \<open>Python values, dictionaries and exceptions\<close>

text \<open>
  The two source files are \<^verbatim>\<open>histdatacom/cli.py\<close> (the argument parser and its
  year-month checks) and \<^verbatim>\<open>histdatacom/histdata_com.py\<close> (the orchestrator
  \<^verbatim>\<open>_HistDataCom\<close>). The values that live in the argument dictionary
  \<^verbatim>\<open>config.args\<close> are booleans (the \<^verbatim>\<open>store_true\<close> flags), strings, \<^verbatim>\<open>None\<close>,
  lists of strings (what argparse returns for \<^verbatim>\<open>nargs='+'\<close> with a string-valued
  \<^verbatim>\<open>type\<close>) and the sets made from them. Integers are included because the orchestrator
  compares a flag with the integer 1.
\<close>

datatype pyval =
    PyNone
  | PyBool bool
  | PyInt int
  | PyStr string
  | PyList "string list"
  | PySet "string set"

text \<open>Python truthiness, as used by \<^verbatim>\<open>if config.args[...]\<close>.\<close>

fun truthy :: "pyval \<Rightarrow> bool" where
  "truthy PyNone = False"
| "truthy (PyBool b) = b"
| "truthy (PyInt n) = (n \<noteq> 0)"
| "truthy (PyStr s) = (s \<noteq> [])"
| "truthy (PyList xs) = (xs \<noteq> [])"
| "truthy (PySet S) = (S \<noteq> {})"

text \<open>\<^verbatim>\<open>v == 1\<close>: in Python \<^verbatim>\<open>True == 1\<close> holds, and no string, list, set or
  \<^verbatim>\<open>None\<close> equals 1.\<close>

fun py_eq_one :: "pyval \<Rightarrow> bool" where
  "py_eq_one (PyBool b) = b"
| "py_eq_one (PyInt n) = (n = 1)"
| "py_eq_one _ = False"

text \<open>The exceptions the modelled code can raise without catching them.
  \<^verbatim>\<open>UnboundLocalError\<close> is a subclass of \<^verbatim>\<open>NameError\<close>.\<close>

datatype pyexc =
    TypeError
  | KeyError string
  | AttributeError string
  | UnboundLocalError string

fun is_NameError :: "pyexc \<Rightarrow> bool" where
  "is_NameError (UnboundLocalError _) = True"
| "is_NameError _ = False"

text \<open>A dictionary keeps its keys in insertion order: an association list, read with
  \<^const>\<open>map_of\<close> and written with \<^const>\<open>AList.update\<close> (which replaces the value of
  a key that is present, in place, and appends a new key).\<close>

type_synonym pydict = "(string \<times> pyval) list"

definition dict_keys :: "pydict \<Rightarrow> string list" where
  "dict_keys d = map fst d"

definition dict_getitem :: "pydict \<Rightarrow> string \<Rightarrow> pyexc + pyval" where
  "dict_getitem d k = (case map_of d k of None \<Rightarrow> Inl (KeyError k) | Some v \<Rightarrow> Inr v)"

definition dict_setitem :: "pydict \<Rightarrow> string \<Rightarrow> pyval \<Rightarrow> pydict" where
  "dict_setitem d k v = AList.update k v d"

section \<open>\<^verbatim>\<open>ArgParser._arg_list_to_set\<close>\<close>

text \<open>
  \<^verbatim>\<open>
  for arg in args:
      if isinstance(args[arg], list): args[arg] = set(args[arg])
  return args
  \<close>
  The loop runs over the keys of the dictionary; assigning to a key that is present does
  not change the key set, so the iteration is over the keys the dictionary had at the start.
\<close>

fun arg_list_to_set_loop :: "string list \<Rightarrow> pydict \<Rightarrow> pydict" where
  "arg_list_to_set_loop [] args = args"
| "arg_list_to_set_loop (arg # rest) args =
     arg_list_to_set_loop rest
       (case map_of args arg of
          Some (PyList xs) \<Rightarrow> dict_setitem args arg (PySet (set xs))
        | _ \<Rightarrow> args)"

definition arg_list_to_set :: "pydict \<Rightarrow> pydict" where
  "arg_list_to_set args = arg_list_to_set_loop (dict_keys args) args"

text \<open>What the loop does to one value.\<close>

fun list_to_set :: "pyval \<Rightarrow> pyval" where
  "list_to_set (PyList xs) = PySet (set xs)"
| "list_to_set v = v"

section \<open>Process outcomes: \<^verbatim>\<open>sys.exit\<close> and uncaught exceptions\<close>

text \<open>
  Every error text of \<^verbatim>\<open>cli.py\<close> is a constructor named after the variable that holds
  it in the source; the values interpolated into the text are left out. Where two
  functions use the same variable name for texts about \<^verbatim>\<open>-s\<close> and \<^verbatim>\<open>-e\<close>, the
  constructor is tagged with the option. \<^verbatim>\<open>invalid_literal_for_int s\<close> is the message
  of the \<^verbatim>\<open>ValueError\<close> that \<^verbatim>\<open>int(s)\<close> raises.
\<close>

datatype cli_option = opt_s | opt_e

datatype err_text =
    err_text_end_yearmonth_cannot_be_start
  | err_text_start_must_have_end
  | err_text_start_month
  | err_text_no_end_yearmonth
  | err_text_no_start_yearmonth
  | err_text_start_month_greater_than_12
  | err_text_no_endmonth
  | err_text_endmonth_cannot_be_zero
  | err_text_end_month_greater_than_12
  | err_text_start_and_end_cannot_be_the_same
  | err_text_date_prior_to_dataset cli_option
  | err_text_date_is_in_future cli_option
  | err_text_start_date_after_end_date
  | err_text_bad_yearmonth_format
  | invalid_literal_for_int string

text \<open>What the process writes. The code in the sources writes error texts and the
  argparse help; the interpreter writes the traceback of an uncaught exception. A summary
  report is what the specification speaks of.\<close>

datatype stream = stdout | stderr

datatype emitted =
    ErrorText err_text
  | HelpText
  | Traceback pyexc
  | SummaryReport

datatype exit_arg = ExitCode int | ExitObject err_text

text \<open>How a call ends when it does not return: \<^verbatim>\<open>SystemExit\<close>, with what was printed
  before \<^verbatim>\<open>sys.exit\<close> was called and the argument of \<^verbatim>\<open>sys.exit\<close>, or an exception
  that nothing catches.\<close>

datatype outcome =
    SystemExit "(stream \<times> emitted) list" exit_arg
  | Uncaught pyexc

text \<open>The exit status of the process: \<^verbatim>\<open>sys.exit(n)\<close> gives \<open>n\<close> (the low eight bits),
  \<^verbatim>\<open>sys.exit(obj)\<close> for any other object prints it to stderr and gives 1, an uncaught
  exception prints its traceback and gives 1.\<close>

fun exit_status :: "outcome \<Rightarrow> int" where
  "exit_status (SystemExit out (ExitCode n)) = n mod 256"
| "exit_status (SystemExit out (ExitObject e)) = 1"
| "exit_status (Uncaught e) = 1"

fun process_output :: "outcome \<Rightarrow> (stream \<times> emitted) list" where
  "process_output (SystemExit out (ExitCode n)) = out"
| "process_output (SystemExit out (ExitObject e)) = out @ [(stderr, ErrorText e)]"
| "process_output (Uncaught e) = [(stderr, Traceback e)]"

text \<open>Sequencing of calls that may end abruptly.\<close>

definition then_do :: "outcome + 'a \<Rightarrow> ('a \<Rightarrow> outcome + 'b) \<Rightarrow> outcome + 'b" where
  "then_do r f = (case r of Inl out \<Rightarrow> Inl out | Inr a \<Rightarrow> f a)"

text \<open>
  \<^verbatim>\<open>
  def exit_on_datetime_error(cls, err):
      print(err)
      sys.exit(err)
  \<close>
\<close>

definition exit_on_datetime_error :: "err_text \<Rightarrow> outcome" where
  "exit_on_datetime_error err = SystemExit [(stdout, ErrorText err)] (ExitObject err)"

section \<open>Strings: digits, \<^verbatim>\<open>int()\<close>, the regular expressions of \<^verbatim>\<open>cli.py\<close>\<close>

text \<open>Strings are lists of characters with codes below 256: the digits of \<^verbatim>\<open>\d\<close> and
  of \<^verbatim>\<open>int()\<close> among them are \<open>0\<close> to \<open>9\<close>.\<close>

definition is_digit :: "char \<Rightarrow> bool" where
  "is_digit c = (c \<in> set ''0123456789'')"

definition digit_value :: "char \<Rightarrow> nat" where
  "digit_value c = of_char c - 48"

text \<open>The white space that \<^verbatim>\<open>int()\<close> strips from a string: the blank and the
  characters 9 to 13, and, of the characters from 128 on, \<^verbatim>\<open>\x85\<close> and \<^verbatim>\<open>\xa0\<close>. The
  separators 28 to 31 are not stripped: \<^verbatim>\<open>int()\<close> refuses a string that holds one.\<close>

definition is_space :: "char \<Rightarrow> bool" where
  "is_space c = (c \<in> set [CHR '' '', CHR 0x09, CHR 0x0A, CHR 0x0B, CHR 0x0C, CHR 0x0D,
                            CHR 0x85, CHR 0xA0])"

definition strip :: "string \<Rightarrow> string" where
  "strip s = rev (dropWhile is_space (rev (dropWhile is_space s)))"

text \<open>The digits of an integer literal: a digit, then digits with at most one
  underscore between two of them.\<close>

fun int_digits :: "nat \<Rightarrow> string \<Rightarrow> nat option" where
  "int_digits acc [] = Some acc"
| "int_digits acc [c] = (if is_digit c then Some (10 * acc + digit_value c) else None)"
| "int_digits acc (c # d # cs) =
     (if is_digit c then int_digits (10 * acc + digit_value c) (d # cs)
      else if c = CHR ''_'' \<and> is_digit d then int_digits acc (d # cs)
      else None)"

definition int_unsigned :: "string \<Rightarrow> nat option" where
  "int_unsigned s = (case s of [] \<Rightarrow> None | c # cs \<Rightarrow> if is_digit c then int_digits 0 s else None)"

text \<open>\<^verbatim>\<open>int(s)\<close> for a string: \<open>None\<close> stands for the \<^verbatim>\<open>ValueError\<close>.\<close>

definition py_int :: "string \<Rightarrow> int option" where
  "py_int s =
     (case strip s of
        [] \<Rightarrow> None
      | c # cs \<Rightarrow>
          if c = CHR ''+'' then map_option int (int_unsigned cs)
          else if c = CHR ''-'' then map_option (\<lambda>n. - int n) (int_unsigned cs)
          else map_option int (int_unsigned (c # cs)))"

text \<open>\<^verbatim>\<open>str.lower\<close> on ASCII.\<close>

definition lower_char :: "char \<Rightarrow> char" where
  "lower_char c =
     (if c \<in> set ''ABCDEFGHIJKLMNOPQRSTUVWXYZ'' then char_of (of_char c + (32::nat)) else c)"

definition str_lower :: "string \<Rightarrow> string" where
  "str_lower s = map lower_char s"

text \<open>\<^verbatim>\<open>[-_.: ]\<close>\<close>

definition is_date_punct :: "char \<Rightarrow> bool" where
  "is_date_punct c = (c \<in> set ''-_.: '')"

text \<open>\<^verbatim>\<open>\d{n}\<close> at the start of a string: the rest after \<open>n\<close> digits.\<close>

fun match_digits :: "nat \<Rightarrow> string \<Rightarrow> string option" where
  "match_digits 0 s = Some s"
| "match_digits (Suc n) [] = None"
| "match_digits (Suc n) (c # s) = (if is_digit c then match_digits n s else None)"

text \<open>\<^verbatim>\<open>$\<close> (without \<^verbatim>\<open>re.MULTILINE\<close>) matches at the end of the string and just before
  a newline that ends the string.\<close>

definition at_dollar :: "string \<Rightarrow> bool" where
  "at_dollar r = (r = [] \<or> r = [CHR 0x0A])"

text \<open>\<^verbatim>\<open>re.match("^\d{4}[-_.: ]\d{2}$", s)\<close>\<close>

definition match_year_punct_month :: "string \<Rightarrow> bool" where
  "match_year_punct_month s =
     (case match_digits 4 s of
        None \<Rightarrow> False
      | Some [] \<Rightarrow> False
      | Some (p # r) \<Rightarrow>
          is_date_punct p \<and> (case match_digits 2 r of None \<Rightarrow> False | Some e \<Rightarrow> at_dollar e))"

text \<open>\<^verbatim>\<open>re.match("^\d{6}$", s)\<close> and \<^verbatim>\<open>re.match("^\d{4}$", s)\<close>\<close>

definition match_only_digits :: "nat \<Rightarrow> string \<Rightarrow> bool" where
  "match_only_digits n s = (case match_digits n s of None \<Rightarrow> False | Some e \<Rightarrow> at_dollar e)"

text \<open>
  \<^verbatim>\<open>
  def replace_date_punct(cls, datemonth_str):
      return re.sub("[-_.: ]", "", datemonth_str) if datemonth_str is not None else ""
  \<close>
\<close>

definition replace_date_punct :: "string option \<Rightarrow> string" where
  "replace_date_punct datemonth_str =
     (case datemonth_str of Some s \<Rightarrow> filter (\<lambda>c. \<not> is_date_punct c) s | None \<Rightarrow> [])"

text \<open>\<^verbatim>\<open>validate_yearmonth_format\<close>, the \<^verbatim>\<open>type\<close> of the options \<^verbatim>\<open>-s\<close> and \<^verbatim>\<open>-e\<close>.
  The \<^verbatim>\<open>ValueError\<close> it raises is caught by its own \<^verbatim>\<open>except\<close> clause, which exits.\<close>

definition validate_yearmonth_format :: "string \<Rightarrow> outcome + string" where
  "validate_yearmonth_format yearmonth =
     (if match_year_punct_month yearmonth
         \<or> match_only_digits 6 yearmonth
         \<or> match_only_digits 4 yearmonth
         \<or> str_lower yearmonth = ''now''
         \<or> str_lower yearmonth = ''start''
         \<or> yearmonth = []
      then Inr (replace_date_punct (Some yearmonth))
      else Inl (exit_on_datetime_error err_text_bad_yearmonth_format))"

section \<open>The argument namespace and the helpers of \<^verbatim>\<open>histdatacom.utils\<close>\<close>

text \<open>
  \<^verbatim>\<open>ArgsNamespace\<close> holds the defaults and, after \<^verbatim>\<open>parse_args\<close>, the user's arguments.
  The two year-month attributes are strings or (after the checks) \<^verbatim>\<open>None\<close>.
\<close>

record ArgsNamespace =
  validate_urls :: bool
  download_data_archives :: bool
  extract_csvs :: bool
  clean_data :: bool
  import_to_influxdb :: bool
  pairs :: pyval
  platforms :: pyval
  timeframes :: pyval
  start_yearmonth :: "string option"
  end_yearmonth :: "string option"
  data_directory :: string

text \<open>\<^verbatim>\<open>ArgsNamespace.__init__\<close>. The three enumerations of \<^verbatim>\<open>histdatacom.fx_enums\<close>
  are not among the sources; their key and value lists are parameters.\<close>

definition ArgsNamespace_init :: "pyval \<Rightarrow> pyval \<Rightarrow> pyval \<Rightarrow> ArgsNamespace" where
  "ArgsNamespace_init Pairs_list_keys Platform_list_values Timeframe_list_keys =
     \<lparr> validate_urls = True,
       download_data_archives = False,
       extract_csvs = False,
       clean_data = False,
       import_to_influxdb = False,
       pairs = Pairs_list_keys,
       platforms = Platform_list_values,
       timeframes = Timeframe_list_keys,
       start_yearmonth = Some [],
       end_yearmonth = Some [],
       data_directory = ''data'' \<rparr>"

text \<open>Truthiness of a year-month attribute: \<^verbatim>\<open>None\<close> and the empty string are falsy.\<close>

definition truthy_str :: "string option \<Rightarrow> bool" where
  "truthy_str v = (case v of None \<Rightarrow> False | Some s \<Rightarrow> s \<noteq> [])"

text \<open>The tuple assignment
  \<^verbatim>\<open>args_namespace.start_yearmonth, args_namespace.end_yearmonth = ...\<close>\<close>

definition set_yearmonths :: "ArgsNamespace \<Rightarrow> string option \<times> string option \<Rightarrow> ArgsNamespace" where
  "set_yearmonths ns p = ns\<lparr>start_yearmonth := fst p, end_yearmonth := snd p\<rparr>"

text \<open>
  The module \<^verbatim>\<open>histdatacom.utils\<close> is not among the sources. The three helpers the
  checks call are parameters: the year and the month of a year-month (called on strings
  and on \<^verbatim>\<open>None\<close>, giving strings), and the current year-month, a string.
\<close>

record utils =
  get_year_from_datemonth :: "string option \<Rightarrow> string"
  get_month_from_datemonth :: "string option \<Rightarrow> string"
  get_current_datemonth_gmt_plus5 :: string

section \<open>The year-month checks of \<^verbatim>\<open>ArgParser\<close>\<close>

text \<open>Each check raises \<^verbatim>\<open>ValueError\<close> inside a \<^verbatim>\<open>try\<close> whose \<^verbatim>\<open>except ValueError\<close>
  clause calls \<^verbatim>\<open>exit_on_datetime_error\<close>; \<^verbatim>\<open>SystemExit\<close> is not a \<^verbatim>\<open>ValueError\<close> and
  leaves the check.\<close>

definition check_for_start_in_yearmonth ::
  "ArgsNamespace \<Rightarrow> outcome + (string option \<times> string option)" where
  "check_for_start_in_yearmonth ns =
     (if truthy_str (start_yearmonth ns) \<and> start_yearmonth ns = Some ''start'' then
        (if truthy_str (end_yearmonth ns) then
           (if end_yearmonth ns = Some ''start''
            then Inl (exit_on_datetime_error err_text_end_yearmonth_cannot_be_start)
            else Inr (Some ''200001'', end_yearmonth ns))
         else Inl (exit_on_datetime_error err_text_start_must_have_end))
      else Inr (start_yearmonth ns, end_yearmonth ns))"

text \<open>
  \<^verbatim>\<open>
  if (start_yearmonth := args_namespace.start_yearmonth):
      if start_yearmonth == "now":
          return get_current_datemonth_gmt_plus5(), None
      elif end_yearmonth := args_namespace.end_yearmonth:
          if end_yearmonth == "now":
              return start_yearmonth, get_current_datemonth_gmt_plus5()
  return start_yearmonth, end_yearmonth
  \<close>
  The local \<^verbatim>\<open>end_yearmonth\<close> is bound only by the \<^verbatim>\<open>elif\<close>, which is evaluated only when
  \<^verbatim>\<open>start_yearmonth\<close> is truthy; the last line reads it.
\<close>

definition check_for_now_in_yearmonth ::
  "utils \<Rightarrow> ArgsNamespace \<Rightarrow> outcome + (string option \<times> string option)" where
  "check_for_now_in_yearmonth U ns =
     (if truthy_str (start_yearmonth ns) then
        (if start_yearmonth ns = Some ''now'' then
           Inr (Some (get_current_datemonth_gmt_plus5 U), None)
         else if truthy_str (end_yearmonth ns) then
           (if end_yearmonth ns = Some ''now''
            then Inr (start_yearmonth ns, Some (get_current_datemonth_gmt_plus5 U))
            else Inr (start_yearmonth ns, end_yearmonth ns))
         else Inr (start_yearmonth ns, end_yearmonth ns))
      else Inl (Uncaught (UnboundLocalError ''end_yearmonth'')))"

definition check_cli_start_yearmonth ::
  "utils \<Rightarrow> ArgsNamespace \<Rightarrow> outcome + (string option \<times> string option)" where
  "check_cli_start_yearmonth U ns =
     (let start_year = get_year_from_datemonth U (start_yearmonth ns);
          start_month = get_month_from_datemonth U (start_yearmonth ns)
      in
        if start_month = [] then
          (if truthy_str (end_yearmonth ns) then
             (if start_year = []
              then Inl (exit_on_datetime_error err_text_no_start_yearmonth)
              else Inl (exit_on_datetime_error err_text_no_end_yearmonth))
           else Inr (Some (start_year @ ''00''), None))
        else if start_month = ''00'' then
          Inl (exit_on_datetime_error err_text_start_month)
        else
          (case py_int start_month of
             None \<Rightarrow> Inl (exit_on_datetime_error (invalid_literal_for_int start_month))
           | Some m \<Rightarrow>
               if m > 12
               then Inl (exit_on_datetime_error err_text_start_month_greater_than_12)
               else Inr (start_yearmonth ns, end_yearmonth ns)))"

definition check_cli_end_yearmonth :: "utils \<Rightarrow> ArgsNamespace \<Rightarrow> outcome + unit" where
  "check_cli_end_yearmonth U ns =
     (if truthy_str (end_yearmonth ns) then
        (let end_year = get_year_from_datemonth U (end_yearmonth ns);
             end_month = get_month_from_datemonth U (end_yearmonth ns)
         in
           if end_year \<noteq> [] \<and> end_month = [] then
             Inl (exit_on_datetime_error err_text_no_endmonth)
           else if end_month = ''00'' then
             Inl (exit_on_datetime_error err_text_endmonth_cannot_be_zero)
           else
             (case py_int end_month of
                None \<Rightarrow> Inl (exit_on_datetime_error (invalid_literal_for_int end_month))
              | Some m \<Rightarrow>
                  if m > 12
                  then Inl (exit_on_datetime_error err_text_end_month_greater_than_12)
                  else Inr ()))
      else Inr ())"

text \<open>\<^verbatim>\<open>if f"{start_year}_{start_month}" == f"{end_year}_{end_month}": raise ValueError(...)\<close>\<close>

definition check_for_same_start_yearmonth :: "utils \<Rightarrow> ArgsNamespace \<Rightarrow> outcome + unit" where
  "check_for_same_start_yearmonth U ns =
     (let start_year = get_year_from_datemonth U (start_yearmonth ns);
          start_month = get_month_from_datemonth U (start_yearmonth ns);
          end_year = get_year_from_datemonth U (end_yearmonth ns);
          end_month = get_month_from_datemonth U (end_yearmonth ns)
      in
        if start_year @ ''_'' @ start_month = end_year @ ''_'' @ end_month
        then Inl (exit_on_datetime_error err_text_start_and_end_cannot_be_the_same)
        else Inr ())"

definition replace_falsey_yearmonth_with_none ::
  "ArgsNamespace \<Rightarrow> string option \<times> string option" where
  "replace_falsey_yearmonth_with_none ns =
     (if \<not> truthy_str (start_yearmonth ns) \<or> start_yearmonth ns = Some [] then None
      else start_yearmonth ns,
      if \<not> truthy_str (end_yearmonth ns) \<or> end_yearmonth ns = Some [] then None
      else end_yearmonth ns)"

text \<open>The range check shared by \<^verbatim>\<open>check_start_yearmonth_in_range\<close> (on \<^verbatim>\<open>-s\<close>) and
  \<^verbatim>\<open>check_end_yearmonth_in_range\<close> (on \<^verbatim>\<open>-e\<close>), which differ in the attribute they read
  and in the option their texts name:
  \<^verbatim>\<open>
  if int(yearmonth) < 200000: raise ValueError(err_text_date_prior_to_dataset)
  if int(yearmonth) > int(get_current_datemonth_gmt_plus5()): raise ValueError(...)
  \<close>
\<close>

definition yearmonth_in_range :: "utils \<Rightarrow> cli_option \<Rightarrow> string option \<Rightarrow> outcome + unit" where
  "yearmonth_in_range U opt yearmonth =
     (case yearmonth of
        None \<Rightarrow> Inr ()
      | Some ym \<Rightarrow>
          if ym = [] then Inr ()
          else
            (case py_int ym of
               None \<Rightarrow> Inl (exit_on_datetime_error (invalid_literal_for_int ym))
             | Some n \<Rightarrow>
                 if n < 200000 then Inl (exit_on_datetime_error (err_text_date_prior_to_dataset opt))
                 else
                   (case py_int (get_current_datemonth_gmt_plus5 U) of
                      None \<Rightarrow>
                        Inl (exit_on_datetime_error
                               (invalid_literal_for_int (get_current_datemonth_gmt_plus5 U)))
                    | Some now \<Rightarrow>
                        if n > now
                        then Inl (exit_on_datetime_error (err_text_date_is_in_future opt))
                        else Inr ())))"

definition check_start_yearmonth_in_range :: "utils \<Rightarrow> ArgsNamespace \<Rightarrow> outcome + unit" where
  "check_start_yearmonth_in_range U ns = yearmonth_in_range U opt_s (start_yearmonth ns)"

definition check_end_yearmonth_in_range :: "utils \<Rightarrow> ArgsNamespace \<Rightarrow> outcome + unit" where
  "check_end_yearmonth_in_range U ns = yearmonth_in_range U opt_e (end_yearmonth ns)"

definition check_start_lessthan_end :: "ArgsNamespace \<Rightarrow> outcome + unit" where
  "check_start_lessthan_end ns =
     (case (start_yearmonth ns, end_yearmonth ns) of
        (Some s, Some e) \<Rightarrow>
          if s \<noteq> [] \<and> e \<noteq> [] then
            (case py_int s of
               None \<Rightarrow> Inl (exit_on_datetime_error (invalid_literal_for_int s))
             | Some i \<Rightarrow>
                 (case py_int e of
                    None \<Rightarrow> Inl (exit_on_datetime_error (invalid_literal_for_int e))
                  | Some j \<Rightarrow>
                      if i > j
                      then Inl (exit_on_datetime_error err_text_start_date_after_end_date)
                      else Inr ()))
          else Inr ()
      | _ \<Rightarrow> Inr ())"

text \<open>\<^verbatim>\<open>check_datetime_input\<close>: the first five checks run only when a start or an end
  was given; each tuple a check returns is assigned to the namespace before the next
  check reads it.\<close>

definition check_datetime_input :: "utils \<Rightarrow> ArgsNamespace \<Rightarrow> outcome + ArgsNamespace" where
  "check_datetime_input U ns =
     then_do
       (if truthy_str (start_yearmonth ns) \<or> truthy_str (end_yearmonth ns) then
          then_do (check_for_start_in_yearmonth ns) (\<lambda>p1.
          let ns1 = set_yearmonths ns p1 in
          then_do (check_for_now_in_yearmonth U ns1) (\<lambda>p2.
          let ns2 = set_yearmonths ns1 p2 in
          then_do (check_cli_start_yearmonth U ns2) (\<lambda>p3.
          let ns3 = set_yearmonths ns2 p3 in
          then_do (check_cli_end_yearmonth U ns3) (\<lambda>_.
          then_do (check_for_same_start_yearmonth U ns3) (\<lambda>_.
          Inr ns3)))))
        else Inr ns)
       (\<lambda>ns4.
          let ns5 = set_yearmonths ns4 (replace_falsey_yearmonth_with_none ns4) in
          then_do (check_start_yearmonth_in_range U ns5) (\<lambda>_.
          then_do (check_end_yearmonth_in_range U ns5) (\<lambda>_.
          then_do (check_start_lessthan_end ns5) (\<lambda>_.
          Inr ns5))))"

section \<open>\<^verbatim>\<open>ArgParser.__init__\<close> and the call \<^verbatim>\<open>ArgParser(...)\<close>\<close>

text \<open>
  \<^verbatim>\<open>
  if len(sys.argv)==1:
      self.print_help(sys.stderr)
      sys.exit(1)
  self.parse_args(namespace=self.arg_namespace)
  self.check_datetime_input(self.arg_namespace)
  \<close>
  \<^verbatim>\<open>parse_args\<close> is argparse's: how it ends (a \<^verbatim>\<open>SystemExit\<close> of its own or of a
  \<^verbatim>\<open>type\<close> function, or the filled namespace) is a parameter. The result is the
  namespace that \<^verbatim>\<open>__call__\<close> hands out.
\<close>

definition ArgParser_init ::
  "utils \<Rightarrow> string list \<Rightarrow> outcome + ArgsNamespace \<Rightarrow> outcome + ArgsNamespace" where
  "ArgParser_init U argv parse_args =
     (if length argv = 1 then Inl (SystemExit [(stderr, HelpText)] (ExitCode 1))
      else then_do parse_args (check_datetime_input U))"

text \<open>
  The signature is \<^verbatim>\<open>def __init__(self, **kwargs)\<close>: besides \<^verbatim>\<open>self\<close> it has no
  positional parameter, so a call with a positional argument raises \<^verbatim>\<open>TypeError\<close>
  when the arguments are bound, before the body runs. Keyword arguments are accepted
  and the body never reads them.
\<close>

definition ArgParser_new ::
  "'o list \<Rightarrow> (string \<times> 'o) list \<Rightarrow> utils \<Rightarrow> string list \<Rightarrow> outcome + ArgsNamespace
     \<Rightarrow> outcome + ArgsNamespace" where
  "ArgParser_new positional keywords U argv parse_args =
     (if positional \<noteq> [] then Inl (Uncaught TypeError)
      else ArgParser_init U argv parse_args)"

section \<open>The orchestrator \<^verbatim>\<open>_HistDataCom\<close>\<close>

text \<open>\<^verbatim>\<open>vars(namespace)\<close>: the attributes in the order \<^verbatim>\<open>ArgsNamespace.__init__\<close> sets
  them.\<close>

definition str_or_none :: "string option \<Rightarrow> pyval" where
  "str_or_none v = (case v of None \<Rightarrow> PyNone | Some s \<Rightarrow> PyStr s)"

definition vars_namespace :: "ArgsNamespace \<Rightarrow> pydict" where
  "vars_namespace ns =
     [(''validate_urls'', PyBool (validate_urls ns)),
      (''download_data_archives'', PyBool (download_data_archives ns)),
      (''extract_csvs'', PyBool (extract_csvs ns)),
      (''clean_data'', PyBool (clean_data ns)),
      (''import_to_influxdb'', PyBool (import_to_influxdb ns)),
      (''pairs'', pairs ns),
      (''platforms'', platforms ns),
      (''timeframes'', timeframes ns),
      (''start_yearmonth'', str_or_none (start_yearmonth ns)),
      (''end_yearmonth'', str_or_none (end_yearmonth ns)),
      (''data_directory'', PyStr (data_directory ns))]"

text \<open>
  \<^verbatim>\<open>set_working_data_dir\<close> and \<^verbatim>\<open>load_influx_yaml\<close> belong to \<^verbatim>\<open>histdatacom.utils\<close>,
  which is not among the sources: both are parameters. Reading the credential file may
  fail; when it succeeds the four entries under \<^verbatim>\<open>influxdb\<close> are what the constructor
  copies.
\<close>

record influx_yaml =
  influxdb_org :: pyval
  influxdb_bucket :: pyval
  influxdb_url :: pyval
  influxdb_token :: pyval

record init_env =
  set_working_data_dir :: "pyval \<Rightarrow> pyval"
  load_influx_yaml :: "outcome + influx_yaml"

text \<open>What the constructor does besides assignments, in the order it does it.\<close>

datatype init_event =
    Call_set_working_data_dir
  | Call_load_influx_yaml
  | New_URLs
  | New_CSVs
  | New_API
  | New_Influx

text \<open>The constructed object: the settings \<^verbatim>\<open>config.args\<close> and whether the attributes
  \<^verbatim>\<open>self.influx\<close> and \<^verbatim>\<open>self.csv_chunks_queue\<close> were assigned. The record queues are
  the state that \<^verbatim>\<open>run\<close> passes to the collaborators.\<close>

record HistDataCom =
  config_args :: pydict
  has_influx :: bool

text \<open>Lines 38 to 59 of \<^verbatim>\<open>__init__\<close>, from the dictionary assigned to \<^verbatim>\<open>config.args\<close>
  on line 37.\<close>

definition HistDataCom_init_settings ::
  "init_env \<Rightarrow> pydict \<Rightarrow> (outcome + HistDataCom) \<times> init_event list" where
  "HistDataCom_init_settings E args0 =
     (case dict_getitem args0 ''data_directory'' of
        Inl e \<Rightarrow> (Inl (Uncaught e), [])
      | Inr dir \<Rightarrow>
          let args1 = dict_setitem args0 ''default_download_dir'' (set_working_data_dir E dir);
              args2 = dict_setitem args1 ''queue_filename'' (PyStr ''.queue'');
              ev2 = [Call_set_working_data_dir]
          in
            (case dict_getitem args2 ''import_to_influxdb'' of
               Inl e \<Rightarrow> (Inl (Uncaught e), ev2)
             | Inr flag \<Rightarrow>
                 (case (if py_eq_one flag
                        then (case load_influx_yaml E of
                                Inl out \<Rightarrow> Inl out
                              | Inr y \<Rightarrow>
                                  Inr (dict_setitem
                                        (dict_setitem
                                          (dict_setitem
                                            (dict_setitem args2 ''INFLUX_ORG'' (influxdb_org y))
                                            ''INFLUX_BUCKET'' (influxdb_bucket y))
                                          ''INFLUX_URL'' (influxdb_url y))
                                        ''INFLUX_TOKEN'' (influxdb_token y)))
                        else Inr args2) of
                    Inl out \<Rightarrow> (Inl out, ev2 @ [Call_load_influx_yaml])
                  | Inr args3 \<Rightarrow>
                      let ev3 = ev2 @ (if py_eq_one flag then [Call_load_influx_yaml] else [])
                                    @ [New_URLs, New_CSVs, New_API]
                      in
                        (case dict_getitem args3 ''import_to_influxdb'' of
                           Inl e \<Rightarrow> (Inl (Uncaught e), ev3)
                         | Inr flag' \<Rightarrow>
                             if py_eq_one flag'
                             then (Inr \<lparr>config_args = args3, has_influx = True\<rparr>,
                                   ev3 @ [New_Influx])
                             else (Inr \<lparr>config_args = args3, has_influx = False\<rparr>, ev3)))))"

text \<open>Line 37,
  \<^verbatim>\<open>config.args = ArgParser._arg_list_to_set(vars(ArgParser(options)())).copy()\<close>,
  from the way the call \<^verbatim>\<open>ArgParser(options)\<close> ends; the copy of a dictionary of
  immutable values is the dictionary.\<close>

definition HistDataCom_init_with ::
  "init_env \<Rightarrow> outcome + ArgsNamespace \<Rightarrow> (outcome + HistDataCom) \<times> init_event list" where
  "HistDataCom_init_with E r =
     (case r of
        Inl out \<Rightarrow> (Inl out, [])
      | Inr ns \<Rightarrow> HistDataCom_init_settings E (arg_list_to_set (vars_namespace ns)))"

text \<open>\<^verbatim>\<open>__init__(self, records_current, records_next, csv_chunks_queue, options)\<close>: the
  parser is called with \<^verbatim>\<open>options\<close> as its one positional argument.\<close>

definition HistDataCom_init ::
  "init_env \<Rightarrow> utils \<Rightarrow> string list \<Rightarrow> outcome + ArgsNamespace
     \<Rightarrow> 'q \<Rightarrow> 'q \<Rightarrow> 'c \<Rightarrow> 'o \<Rightarrow> (outcome + HistDataCom) \<times> init_event list" where
  "HistDataCom_init E U argv parse_args records_current records_next csv_chunks_queue options =
     HistDataCom_init_with E (ArgParser_new [options] [] U argv parse_args)"

section \<open>\<^verbatim>\<open>_HistDataCom.run\<close>\<close>

text \<open>
  The stage collaborators (\<^verbatim>\<open>_URLs\<close>, \<^verbatim>\<open>_API\<close>, \<^verbatim>\<open>_CSVs\<close>, \<^verbatim>\<open>_Influx\<close>) are not among
  the sources. Each of their methods that \<^verbatim>\<open>run\<close> calls is a parameter: a function on
  the state \<open>'s\<close> of the shared record queues (\<^verbatim>\<open>records_current\<close>, \<^verbatim>\<open>records_next\<close>,
  \<^verbatim>\<open>csv_chunks_queue\<close>), which every call receives and may change. \<^verbatim>\<open>merge_jays\<close> also
  gives the value that \<^verbatim>\<open>run\<close> returns.
\<close>

record ('s, 'r) collaborators =
  urls_populate_initial_queue :: "'s \<Rightarrow> 's"
  urls_validate_urls :: "'s \<Rightarrow> 's"
  urls_download_zips :: "'s \<Rightarrow> 's"
  api_validate_jays :: "'s \<Rightarrow> 's"
  api_merge_jays :: "'s \<Rightarrow> 'r \<times> 's"
  csvs_extract_csvs :: "'s \<Rightarrow> 's"
  influx_import_data :: "'s \<Rightarrow> 's"

text \<open>How a statement of \<^verbatim>\<open>run\<close> ends: control goes on to the next statement, the
  method returns a value, or an exception leaves it.\<close>

datatype 'r flow = Continue | Returned 'r | Raised pyexc

definition and_then ::
  "('s \<Rightarrow> 'r flow \<times> 's) \<Rightarrow> ('s \<Rightarrow> 'r flow \<times> 's) \<Rightarrow> 's \<Rightarrow> 'r flow \<times> 's" where
  "and_then p q s = (case p s of (Continue, s') \<Rightarrow> q s' | (f, s') \<Rightarrow> (f, s'))"

text \<open>\<^verbatim>\<open>self.urls.populate_initial_queue(self.records_current, self.records_next)\<close>\<close>

definition run_populate_initial_queue ::
  "('s, 'r) collaborators \<Rightarrow> 's \<Rightarrow> 'r flow \<times> 's" where
  "run_populate_initial_queue C s = (Continue, urls_populate_initial_queue C s)"

text \<open>
  \<^verbatim>\<open>
  if config.args["validate_urls"]:
      self.urls.validate_urls(self.records_current, self.records_next)
  \<close>
\<close>

definition run_validate_urls ::
  "HistDataCom \<Rightarrow> ('s, 'r) collaborators \<Rightarrow> 's \<Rightarrow> 'r flow \<times> 's" where
  "run_validate_urls self C s =
     (case dict_getitem (config_args self) ''validate_urls'' of
        Inl e \<Rightarrow> (Raised e, s)
      | Inr v \<Rightarrow> if truthy v then (Continue, urls_validate_urls C s) else (Continue, s))"

text \<open>
  \<^verbatim>\<open>
  if config.args["download_data_archives"]:
      self.urls.download_zips(self.records_current, self.records_next)
      if config.args["from_api"]:
          self.api.validate_jays(self.records_current, self.records_next)
          return self.api.merge_jays(self.records_current)
  \<close>
\<close>

definition run_download_data_archives ::
  "HistDataCom \<Rightarrow> ('s, 'r) collaborators \<Rightarrow> 's \<Rightarrow> 'r flow \<times> 's" where
  "run_download_data_archives self C s =
     (case dict_getitem (config_args self) ''download_data_archives'' of
        Inl e \<Rightarrow> (Raised e, s)
      | Inr v \<Rightarrow>
          if truthy v then
            (let s1 = urls_download_zips C s in
               case dict_getitem (config_args self) ''from_api'' of
                 Inl e \<Rightarrow> (Raised e, s1)
               | Inr a \<Rightarrow>
                   if truthy a then
                     (let s2 = api_validate_jays C s1;
                          (r, s3) = api_merge_jays C s2
                      in (Returned r, s3))
                   else (Continue, s1))
          else (Continue, s))"

text \<open>
  \<^verbatim>\<open>
  if config.args["extract_csvs"]:
      self.csvs.extract_csvs(self.records_current, self.records_next)
  \<close>
\<close>

definition run_extract_csvs ::
  "HistDataCom \<Rightarrow> ('s, 'r) collaborators \<Rightarrow> 's \<Rightarrow> 'r flow \<times> 's" where
  "run_extract_csvs self C s =
     (case dict_getitem (config_args self) ''extract_csvs'' of
        Inl e \<Rightarrow> (Raised e, s)
      | Inr v \<Rightarrow> if truthy v then (Continue, csvs_extract_csvs C s) else (Continue, s))"

text \<open>
  \<^verbatim>\<open>
  if config.args["import_to_influxdb"]:
      self.influx.import_data(self.records_current, self.records_next, self.csv_chunks_queue)
  \<close>
  The attribute \<^verbatim>\<open>self.influx\<close> exists only when the constructor assigned it.
\<close>

definition run_import_to_influxdb ::
  "HistDataCom \<Rightarrow> ('s, 'r) collaborators \<Rightarrow> 's \<Rightarrow> 'r flow \<times> 's" where
  "run_import_to_influxdb self C s =
     (case dict_getitem (config_args self) ''import_to_influxdb'' of
        Inl e \<Rightarrow> (Raised e, s)
      | Inr v \<Rightarrow>
          if truthy v then
            (if has_influx self then (Continue, influx_import_data C s)
             else (Raised (AttributeError ''influx''), s))
          else (Continue, s))"

text \<open>\<^verbatim>\<open>run\<close>: the five statements in the order of the source. \<^verbatim>\<open>Continue\<close> at the end
  is the method returning \<^verbatim>\<open>None\<close>.\<close>

definition run :: "HistDataCom \<Rightarrow> ('s, 'r) collaborators \<Rightarrow> 's \<Rightarrow> 'r flow \<times> 's" where
  "run self C =
     and_then (run_populate_initial_queue C)
    (and_then (run_validate_urls self C)
    (and_then (run_download_data_archives self C)
    (and_then (run_extract_csvs self C)
              (run_import_to_influxdb self C))))"

text \<open>The calls \<^verbatim>\<open>run\<close> makes, observed by collaborators that do nothing but record
  their name.\<close>

datatype stage_call =
    Call_populate_initial_queue
  | Call_validate_urls
  | Call_download_zips
  | Call_validate_jays
  | Call_merge_jays
  | Call_extract_csvs
  | Call_import_data

definition recording :: "(stage_call list, unit) collaborators" where
  "recording =
     \<lparr> urls_populate_initial_queue = (\<lambda>t. t @ [Call_populate_initial_queue]),
       urls_validate_urls = (\<lambda>t. t @ [Call_validate_urls]),
       urls_download_zips = (\<lambda>t. t @ [Call_download_zips]),
       api_validate_jays = (\<lambda>t. t @ [Call_validate_jays]),
       api_merge_jays = (\<lambda>t. ((), t @ [Call_merge_jays])),
       csvs_extract_csvs = (\<lambda>t. t @ [Call_extract_csvs]),
       influx_import_data = (\<lambda>t. t @ [Call_import_data]) \<rparr>"

definition calls_of_run :: "HistDataCom \<Rightarrow> stage_call list" where
  "calls_of_run self = snd (run self recording [])"

section \<open>Sample helpers for concrete runs\<close>

text \<open>
  An instance of the absent helpers of \<^verbatim>\<open>histdatacom.utils\<close>, used only to run the
  checks on concrete inputs: the year is the first four characters of a year-month, the
  month is its last two characters when it has more than four, both are empty for
  \<^verbatim>\<open>None\<close>, and the current year-month is fixed. No general theorem depends on it.
\<close>

definition sample_year :: "string option \<Rightarrow> string" where
  "sample_year d = (case d of None \<Rightarrow> [] | Some s \<Rightarrow> take 4 s)"

definition sample_month :: "string option \<Rightarrow> string" where
  "sample_month d =
     (case d of None \<Rightarrow> [] | Some s \<Rightarrow> if length s > 4 then drop (length s - 2) s else [])"

definition sample_utils :: utils where
  "sample_utils =
     \<lparr> get_year_from_datemonth = sample_year,
       get_month_from_datemonth = sample_month,
       get_current_datemonth_gmt_plus5 = ''202611'' \<rparr>"

definition sample_namespace :: ArgsNamespace where
  "sample_namespace =
     ArgsNamespace_init (PyList [''eurusd'']) (PyList [''ascii'']) (PyList [''M1''])"

text \<open>An instance of the absent helpers the constructor calls, and a command line.\<close>

definition sample_env :: init_env where
  "sample_env =
     \<lparr> set_working_data_dir = (\<lambda>d. d),
       load_influx_yaml =
         Inr \<lparr> influxdb_org = PyStr ''org'', influxdb_bucket = PyStr ''bucket'',
               influxdb_url = PyStr ''http://localhost:8086'', influxdb_token = PyStr ''token'' \<rparr> \<rparr>"

definition sample_argv :: "string list" where
  "sample_argv = [''histdatacom'', ''-s'', ''2021-01'', ''-e'', ''2021-01'']"

text \<open>The dictionary that line 37 would assign for the sample namespace, and
  orchestrator objects whose five stage flags are all set or all unset.\<close>

definition sample_args :: "bool \<Rightarrow> pydict" where
  "sample_args load =
     arg_list_to_set (vars_namespace (sample_namespace\<lparr>import_to_influxdb := load\<rparr>))"

definition sample_self :: "bool \<Rightarrow> bool \<Rightarrow> HistDataCom" where
  "sample_self enabled api =
     \<lparr> config_args =
         [(''validate_urls'', PyBool enabled),
          (''download_data_archives'', PyBool enabled),
          (''extract_csvs'', PyBool enabled),
          (''clean_data'', PyBool enabled),
          (''import_to_influxdb'', PyBool enabled),
          (''from_api'', PyBool api)],
       has_influx = enabled \<rparr>"

section \<open>Properties of \<^verbatim>\<open>_arg_list_to_set\<close>\<close>

lemma arg_list_to_set_loop_keys:
  "map fst (arg_list_to_set_loop ks args) = map fst args"
proof (induction ks arbitrary: args)
  case Nil
  show ?case by simp
next
  case (Cons k ks)
  have "map fst (AList.update k v args) = map fst args" if "map_of args k = Some w" for v w
    using that by (induction args) (auto split: if_splits)
  with Cons show ?case
    by (simp add: dict_setitem_def split: option.split pyval.split)
qed

lemma arg_list_to_set_loop_lookup:
  "map_of (arg_list_to_set_loop ks args) k =
     (if k \<in> set ks then map_option list_to_set (map_of args k) else map_of args k)"
proof (induction ks arbitrary: args)
  case Nil
  show ?case by simp
next
  case (Cons a ks)
  show ?case
  proof (cases "map_of args a")
    case None
    then show ?thesis using Cons by auto
  next
    case (Some v)
    then show ?thesis using Cons
      by (cases v) (auto simp: dict_setitem_def update_conv' map_option_case split: option.splits)
  qed
qed

lemma arg_list_to_set_loop_fixed:
  "(\<And>k xs. k \<in> set ks \<Longrightarrow> map_of args k \<noteq> Some (PyList xs)) \<Longrightarrow>
   arg_list_to_set_loop ks args = args"
proof (induction ks arbitrary: args)
  case Nil
  show ?case by simp
next
  case (Cons a ks)
  have "map_of args a \<noteq> Some (PyList xs)" for xs
    using Cons.prems [of a xs] by simp
  then have "(case map_of args a of Some (PyList xs) \<Rightarrow> dict_setitem args a (PySet (set xs))
               | _ \<Rightarrow> args) = args"
    by (auto split: option.split pyval.split)
  moreover have "arg_list_to_set_loop ks args = args"
    using Cons.prems by (intro Cons.IH) simp
  ultimately show ?case by simp
qed

lemma list_to_set_not_list: "list_to_set v \<noteq> PyList xs"
  by (cases v) simp_all

text \<open>
  Claim C10. For every argument dictionary, \<^verbatim>\<open>_arg_list_to_set\<close> returns a dictionary
  with the same keys in the same order, in which every key's value is the old value with
  a list replaced by the set of its elements and every other value unchanged; applying
  it a second time changes nothing.
\<close>

theorem arg_list_to_set_spec:
  "dict_keys (arg_list_to_set args) = dict_keys args \<and>
   map_of (arg_list_to_set args) k = map_option list_to_set (map_of args k) \<and>
   arg_list_to_set (arg_list_to_set args) = arg_list_to_set args"
proof (intro conjI)
  show keys: "dict_keys (arg_list_to_set args) = dict_keys args"
    by (simp add: arg_list_to_set_def dict_keys_def arg_list_to_set_loop_keys)
  have lookup: "map_of (arg_list_to_set args) a = map_option list_to_set (map_of args a)" for a
  proof (cases "map_of args a")
    case None
    then show ?thesis
      by (simp add: arg_list_to_set_def arg_list_to_set_loop_lookup)
  next
    case (Some v)
    then have "a \<in> set (dict_keys args)"
      using map_of_eq_None_iff [of args a] by (simp add: dict_keys_def)
    then show ?thesis
      by (simp add: arg_list_to_set_def arg_list_to_set_loop_lookup)
  qed
  show "map_of (arg_list_to_set args) k = map_option list_to_set (map_of args k)"
    by (rule lookup)
  have "map_of (arg_list_to_set args) a \<noteq> Some (PyList xs)" for a xs
    using list_to_set_not_list by (auto simp: lookup)
  then have "arg_list_to_set_loop (dict_keys (arg_list_to_set args)) (arg_list_to_set args)
             = arg_list_to_set args"
    by (intro arg_list_to_set_loop_fixed) simp
  then show "arg_list_to_set (arg_list_to_set args) = arg_list_to_set args"
    by (simp add: arg_list_to_set_def)
qed

theorem arg_list_to_set_spec_witness:
  "arg_list_to_set
     [(''pairs'', PyList [''eurusd'', ''usdjpy'', ''eurusd'']), (''validate_urls'', PyBool True)]
   = [(''pairs'', PySet {''eurusd'', ''usdjpy''}), (''validate_urls'', PyBool True)] \<and>
   arg_list_to_set (arg_list_to_set
     [(''pairs'', PyList [''eurusd'', ''usdjpy'', ''eurusd'']), (''validate_urls'', PyBool True)])
   = [(''pairs'', PySet {''eurusd'', ''usdjpy''}), (''validate_urls'', PyBool True)]"
  using arg_list_to_set_spec
    [of "[(''pairs'', PyList [''eurusd'', ''usdjpy'', ''eurusd'']), (''validate_urls'', PyBool True)]"
        "''pairs''"]
  by (simp add: arg_list_to_set_def dict_keys_def dict_setitem_def insert_commute)

section \<open>How the year-month checks end\<close>

text \<open>A check that does not return ends in \<^verbatim>\<open>exit_on_datetime_error\<close>; only
  \<^verbatim>\<open>check_for_now_in_yearmonth\<close> ends in an uncaught exception.\<close>

lemma exit_on_datetime_error_status: "exit_status (exit_on_datetime_error err) = 1"
  by (simp add: exit_on_datetime_error_def)

lemma process_output_exit_on_datetime_error:
  "process_output (exit_on_datetime_error err) = [(stdout, ErrorText err), (stderr, ErrorText err)]"
  by (simp add: exit_on_datetime_error_def)

lemma check_for_start_in_yearmonth_exits:
  "check_for_start_in_yearmonth ns = Inl out \<Longrightarrow> \<exists>err. out = exit_on_datetime_error err"
  by (auto simp: check_for_start_in_yearmonth_def split: if_splits)

lemma check_for_now_in_yearmonth_raises:
  "check_for_now_in_yearmonth U ns = Inl out \<Longrightarrow> out = Uncaught (UnboundLocalError ''end_yearmonth'')"
  by (auto simp: check_for_now_in_yearmonth_def split: if_splits)

lemma check_cli_start_yearmonth_exits:
  "check_cli_start_yearmonth U ns = Inl out \<Longrightarrow> \<exists>err. out = exit_on_datetime_error err"
  by (auto simp: check_cli_start_yearmonth_def Let_def split: if_splits option.splits)

lemma check_cli_end_yearmonth_exits:
  "check_cli_end_yearmonth U ns = Inl out \<Longrightarrow> \<exists>err. out = exit_on_datetime_error err"
  by (auto simp: check_cli_end_yearmonth_def Let_def split: if_splits option.splits)

lemma check_for_same_start_yearmonth_exits:
  "check_for_same_start_yearmonth U ns = Inl out \<Longrightarrow>
   out = exit_on_datetime_error err_text_start_and_end_cannot_be_the_same"
  by (auto simp: check_for_same_start_yearmonth_def Let_def split: if_splits)

lemma check_for_same_start_yearmonth_same:
  "start_yearmonth ns = end_yearmonth ns \<Longrightarrow>
   check_for_same_start_yearmonth U ns
     = Inl (exit_on_datetime_error err_text_start_and_end_cannot_be_the_same)"
  by (simp add: check_for_same_start_yearmonth_def)

lemma yearmonth_in_range_exits:
  "yearmonth_in_range U opt ym = Inl out \<Longrightarrow> \<exists>err. out = exit_on_datetime_error err"
  by (auto simp: yearmonth_in_range_def split: if_splits option.splits)

lemma check_start_lessthan_end_exits:
  "check_start_lessthan_end ns = Inl out \<Longrightarrow> \<exists>err. out = exit_on_datetime_error err"
  by (auto simp: check_start_lessthan_end_def split: if_splits option.splits)

lemma then_do_Inl:
  "then_do r f = Inl out \<Longrightarrow> r = Inl out \<or> (\<exists>a. r = Inr a \<and> f a = Inl out)"
  by (cases r) (simp_all add: then_do_def)

lemma set_yearmonths_same:
  "set_yearmonths ns (start_yearmonth ns, end_yearmonth ns) = ns"
  by (simp add: set_yearmonths_def)

lemma check_datetime_input_ends:
  assumes "check_datetime_input U ns = Inl out"
  shows "(\<exists>err. out = exit_on_datetime_error err) \<or> out = Uncaught (UnboundLocalError ''end_yearmonth'')"
  using assms
  unfolding check_datetime_input_def Let_def check_start_yearmonth_in_range_def
    check_end_yearmonth_in_range_def
  by (auto dest!: then_do_Inl split: if_splits
      dest: check_for_start_in_yearmonth_exits check_for_now_in_yearmonth_raises
        check_cli_start_yearmonth_exits check_cli_end_yearmonth_exits
        check_for_same_start_yearmonth_exits yearmonth_in_range_exits
        check_start_lessthan_end_exits)

lemma validate_yearmonth_format_exits:
  "validate_yearmonth_format ym = Inl out \<Longrightarrow>
   out = exit_on_datetime_error err_text_bad_yearmonth_format"
  by (auto simp: validate_yearmonth_format_def split: if_splits)

lemma ArgParser_init_ends:
  assumes "ArgParser_init U argv (Inr ns) = Inl out"
  shows "out = SystemExit [(stderr, HelpText)] (ExitCode 1)
         \<or> (\<exists>err. out = exit_on_datetime_error err)
         \<or> out = Uncaught (UnboundLocalError ''end_yearmonth'')"
  using assms check_datetime_input_ends [of U ns out]
  by (auto simp: ArgParser_init_def then_do_def split: if_splits)

text \<open>The checks on concrete command lines.\<close>

lemma sample_fmt: "validate_yearmonth_format ''2021-01'' = Inr ''202101''"
  by (simp add: validate_yearmonth_format_def match_year_punct_month_def eval_nat_numeral
      is_digit_def is_date_punct_def at_dollar_def replace_date_punct_def)

lemma sample_fmt_bad: "validate_yearmonth_format ''2021/01'' = Inl (exit_on_datetime_error err_text_bad_yearmonth_format)"
  by (simp add: validate_yearmonth_format_def match_year_punct_month_def match_only_digits_def eval_nat_numeral
      is_digit_def is_date_punct_def at_dollar_def replace_date_punct_def str_lower_def lower_char_def)

lemma sample_same:
  "check_datetime_input sample_utils
     (sample_namespace\<lparr>start_yearmonth := Some ''202101'', end_yearmonth := Some ''202101''\<rparr>)
   = Inl (exit_on_datetime_error err_text_start_and_end_cannot_be_the_same)"
  by (simp add: check_datetime_input_def then_do_def truthy_str_def
      check_for_start_in_yearmonth_def check_for_now_in_yearmonth_def set_yearmonths_def
      check_cli_start_yearmonth_def check_cli_end_yearmonth_def
      check_for_same_start_yearmonth_def sample_utils_def sample_year_def sample_month_def
      sample_namespace_def ArgsNamespace_init_def Let_def
      py_int_def strip_def is_space_def int_unsigned_def is_digit_def digit_value_def)

lemma sample_ArgParser_init_same:
  "ArgParser_init sample_utils sample_argv
     (Inr (sample_namespace\<lparr>start_yearmonth := Some ''202101'', end_yearmonth := Some ''202101''\<rparr>))
   = Inl (exit_on_datetime_error err_text_start_and_end_cannot_be_the_same)"
  using sample_same by (simp add: ArgParser_init_def sample_argv_def then_do_def)

lemma sample_start_start:
  "ArgParser_init sample_utils [''histdatacom'', ''-s'', ''start'', ''-e'', ''start'']
     (Inr (sample_namespace\<lparr>start_yearmonth := Some ''start'', end_yearmonth := Some ''start''\<rparr>))
   = Inl (exit_on_datetime_error err_text_end_yearmonth_cannot_be_start)"
  by (simp add: ArgParser_init_def then_do_def check_datetime_input_def truthy_str_def
      check_for_start_in_yearmonth_def sample_namespace_def ArgsNamespace_init_def)

section \<open>Properties of the configuration checks\<close>

text \<open>
  Claim C4. Whenever the configuration is rejected, the process ends with a non-zero
  exit status before any work starts: a year-month that \<^verbatim>\<open>validate_yearmonth_format\<close>
  refuses, and every way in which \<^verbatim>\<open>ArgParser.__init__\<close> ends without returning once
  argparse has filled the namespace (no argument at all, a failed year-month check, the
  unbound local of \<^verbatim>\<open>check_for_now_in_yearmonth\<close>), has an exit status other than 0; and
  the constructor of the orchestrator, whose first statement builds the parser, then ends
  the same way having called no helper and built no collaborator.
\<close>

theorem configuration_rejection_exits_nonzero:
  "(validate_yearmonth_format ym = Inl out \<longrightarrow> exit_status out \<noteq> 0) \<and>
   (ArgParser_init U argv (Inr ns) = Inl out' \<longrightarrow>
      exit_status out' \<noteq> 0 \<and>
      HistDataCom_init_with E (ArgParser_init U argv (Inr ns)) = (Inl out', []))"
proof (intro conjI impI)
  assume "validate_yearmonth_format ym = Inl out"
  then show "exit_status out \<noteq> 0"
    by (auto dest: validate_yearmonth_format_exits simp: exit_on_datetime_error_status)
next
  assume a: "ArgParser_init U argv (Inr ns) = Inl out'"
  from ArgParser_init_ends [OF a] show "exit_status out' \<noteq> 0"
    by (auto simp: exit_on_datetime_error_status)
  from a show "HistDataCom_init_with E (ArgParser_init U argv (Inr ns)) = (Inl out', [])"
    by (simp add: HistDataCom_init_with_def)
qed

theorem configuration_rejection_exits_nonzero_witness:
  "validate_yearmonth_format ''2021/01''
     = Inl (exit_on_datetime_error err_text_bad_yearmonth_format) \<and>
   exit_status (exit_on_datetime_error err_text_bad_yearmonth_format) \<noteq> 0 \<and>
   ArgParser_init sample_utils sample_argv
     (Inr (sample_namespace\<lparr>start_yearmonth := Some ''202101'', end_yearmonth := Some ''202101''\<rparr>))
     = Inl (exit_on_datetime_error err_text_start_and_end_cannot_be_the_same) \<and>
   exit_status (exit_on_datetime_error err_text_start_and_end_cannot_be_the_same) \<noteq> 0 \<and>
   HistDataCom_init_with sample_env
     (ArgParser_init sample_utils sample_argv
       (Inr (sample_namespace\<lparr>start_yearmonth := Some ''202101'', end_yearmonth := Some ''202101''\<rparr>)))
     = (Inl (exit_on_datetime_error err_text_start_and_end_cannot_be_the_same), [])"
  using configuration_rejection_exits_nonzero
    [of "''2021/01''" "exit_on_datetime_error err_text_bad_yearmonth_format"
        sample_utils sample_argv
        "sample_namespace\<lparr>start_yearmonth := Some ''202101'', end_yearmonth := Some ''202101''\<rparr>"
        "exit_on_datetime_error err_text_start_and_end_cannot_be_the_same" sample_env]
    sample_fmt_bad sample_ArgParser_init_same
  by simp

text \<open>
  Claim C5, as amended. When the configuration is rejected, what the process writes
  before it is gone is the error text, printed to stdout by \<^verbatim>\<open>exit_on_datetime_error\<close>
  and to stderr by \<^verbatim>\<open>sys.exit(err)\<close> (or the help text when no argument was given, or
  the traceback of the unbound local); a summary report is not part of it.
\<close>

theorem rejection_emits_error_text_only:
  "(validate_yearmonth_format ym = Inl out \<longrightarrow>
      process_output out = [(stdout, ErrorText err_text_bad_yearmonth_format),
                            (stderr, ErrorText err_text_bad_yearmonth_format)]) \<and>
   (ArgParser_init U argv (Inr ns) = Inl out' \<longrightarrow>
      (process_output out' = [(stderr, HelpText)]
       \<or> (\<exists>err. out' = exit_on_datetime_error err \<and>
                 process_output out' = [(stdout, ErrorText err), (stderr, ErrorText err)])
       \<or> process_output out' = [(stderr, Traceback (UnboundLocalError ''end_yearmonth''))])
      \<and> SummaryReport \<notin> snd ` set (process_output out'))"
proof (intro conjI impI)
  assume "validate_yearmonth_format ym = Inl out"
  then show "process_output out = [(stdout, ErrorText err_text_bad_yearmonth_format),
                            (stderr, ErrorText err_text_bad_yearmonth_format)]"
    by (auto dest: validate_yearmonth_format_exits simp: process_output_exit_on_datetime_error)
next
  assume a: "ArgParser_init U argv (Inr ns) = Inl out'"
  from ArgParser_init_ends [OF a]
  show "process_output out' = [(stderr, HelpText)]
       \<or> (\<exists>err. out' = exit_on_datetime_error err \<and>
                 process_output out' = [(stdout, ErrorText err), (stderr, ErrorText err)])
       \<or> process_output out' = [(stderr, Traceback (UnboundLocalError ''end_yearmonth''))]"
    by (auto simp: process_output_exit_on_datetime_error)
  from ArgParser_init_ends [OF a]
  show "SummaryReport \<notin> snd ` set (process_output out')"
    by (auto simp: process_output_exit_on_datetime_error)
qed

theorem rejection_emits_error_text_only_witness:
  "validate_yearmonth_format ''2021/01''
     = Inl (exit_on_datetime_error err_text_bad_yearmonth_format) \<and>
   process_output (exit_on_datetime_error err_text_bad_yearmonth_format)
     = [(stdout, ErrorText err_text_bad_yearmonth_format),
        (stderr, ErrorText err_text_bad_yearmonth_format)] \<and>
   ArgParser_init sample_utils [''histdatacom''] (Inr sample_namespace)
     = Inl (SystemExit [(stderr, HelpText)] (ExitCode 1)) \<and>
   SummaryReport \<notin> snd ` set (process_output (SystemExit [(stderr, HelpText)] (ExitCode 1)))"
proof -
  have a: "validate_yearmonth_format ''2021/01''
     = Inl (exit_on_datetime_error err_text_bad_yearmonth_format)"
    by (rule sample_fmt_bad)
  have b: "ArgParser_init sample_utils [''histdatacom''] (Inr sample_namespace)
     = Inl (SystemExit [(stderr, HelpText)] (ExitCode 1))"
    by (simp add: ArgParser_init_def)
  from rejection_emits_error_text_only
    [of "''2021/01''" "exit_on_datetime_error err_text_bad_yearmonth_format"
        sample_utils "[''histdatacom'']" sample_namespace
        "SystemExit [(stderr, HelpText)] (ExitCode 1)"] a b
  show ?thesis by blast
qed

text \<open>
  Claim C5 as stated fails: \<^verbatim>\<open>-s start -e start\<close> is rejected, the process exits with
  status 1, and its whole output is the error text, twice; no summary report.
\<close>

theorem rejection_without_summary_example:
  "ArgParser_init sample_utils [''histdatacom'', ''-s'', ''start'', ''-e'', ''start'']
     (Inr (sample_namespace\<lparr>start_yearmonth := Some ''start'', end_yearmonth := Some ''start''\<rparr>))
   = Inl (exit_on_datetime_error err_text_end_yearmonth_cannot_be_start) \<and>
   exit_status (exit_on_datetime_error err_text_end_yearmonth_cannot_be_start) = 1 \<and>
   process_output (exit_on_datetime_error err_text_end_yearmonth_cannot_be_start)
     = [(stdout, ErrorText err_text_end_yearmonth_cannot_be_start),
        (stderr, ErrorText err_text_end_yearmonth_cannot_be_start)] \<and>
   SummaryReport \<notin> snd ` set (process_output
      (exit_on_datetime_error err_text_end_yearmonth_cannot_be_start))"
  using sample_start_start
  by (simp add: process_output_exit_on_datetime_error exit_on_datetime_error_status)

text \<open>
  Claim C6, as amended. A namespace whose start and end year-month are the same string,
  other than the empty string and the keyword \<^verbatim>\<open>now\<close>, is rejected:
  \<^verbatim>\<open>check_datetime_input\<close> exits through \<^verbatim>\<open>exit_on_datetime_error\<close>, and the check
  \<^verbatim>\<open>check_for_same_start_yearmonth\<close> itself exits with the text that start and end
  cannot be the same. This holds whatever the year and month helpers compute.
\<close>

theorem same_start_and_end_rejected:
  assumes s: "start_yearmonth ns = Some v" and e: "end_yearmonth ns = Some v"
    and v: "v \<noteq> []" "v \<noteq> ''now''"
  shows "(\<exists>err. check_datetime_input U ns = Inl (exit_on_datetime_error err)) \<and>
         check_for_same_start_yearmonth U ns
           = Inl (exit_on_datetime_error err_text_start_and_end_cannot_be_the_same)"
proof
  show "check_for_same_start_yearmonth U ns
           = Inl (exit_on_datetime_error err_text_start_and_end_cannot_be_the_same)"
    using s e by (simp add: check_for_same_start_yearmonth_same)
  have t: "truthy_str (start_yearmonth ns)" "truthy_str (end_yearmonth ns)"
    using s e v by (simp_all add: truthy_str_def)
  show "\<exists>err. check_datetime_input U ns = Inl (exit_on_datetime_error err)"
  proof (cases "v = ''start''")
    case True
    then have "check_for_start_in_yearmonth ns
                 = Inl (exit_on_datetime_error err_text_end_yearmonth_cannot_be_start)"
      using s e t by (simp add: check_for_start_in_yearmonth_def)
    then show ?thesis using t
      by (auto simp: check_datetime_input_def then_do_def)
  next
    case False
    then have p1: "check_for_start_in_yearmonth ns = Inr (start_yearmonth ns, end_yearmonth ns)"
      using s by (simp add: check_for_start_in_yearmonth_def)
    have p2: "check_for_now_in_yearmonth U ns = Inr (start_yearmonth ns, end_yearmonth ns)"
      using s e t v by (simp add: check_for_now_in_yearmonth_def)
    have same: "check_for_same_start_yearmonth U ns
                  = Inl (exit_on_datetime_error err_text_start_and_end_cannot_be_the_same)"
      using s e by (simp add: check_for_same_start_yearmonth_same)
    have p3: "(\<exists>err. check_cli_start_yearmonth U ns = Inl (exit_on_datetime_error err))
              \<or> check_cli_start_yearmonth U ns = Inr (start_yearmonth ns, end_yearmonth ns)"
    proof (cases "check_cli_start_yearmonth U ns")
      case (Inl out)
      then show ?thesis using check_cli_start_yearmonth_exits [of U ns out] by auto
    next
      case (Inr p)
      then show ?thesis using t
        by (auto simp: check_cli_start_yearmonth_def Let_def split: if_splits option.splits)
    qed
    have p4: "(\<exists>err. check_cli_end_yearmonth U ns = Inl (exit_on_datetime_error err))
              \<or> check_cli_end_yearmonth U ns = Inr ()"
    proof (cases "check_cli_end_yearmonth U ns")
      case (Inl out)
      then show ?thesis using check_cli_end_yearmonth_exits [of U ns out] by auto
    next
      case (Inr u)
      then show ?thesis by simp
    qed
    from p3 p4 show ?thesis
      using t p1 p2 same
      by (auto simp: check_datetime_input_def then_do_def set_yearmonths_same)
  qed
qed

theorem same_start_and_end_rejected_witness:
  "(\<exists>err. check_datetime_input sample_utils
      (sample_namespace\<lparr>start_yearmonth := Some ''202203'', end_yearmonth := Some ''202203''\<rparr>)
        = Inl (exit_on_datetime_error err)) \<and>
   check_for_same_start_yearmonth sample_utils
      (sample_namespace\<lparr>start_yearmonth := Some ''202203'', end_yearmonth := Some ''202203''\<rparr>)
        = Inl (exit_on_datetime_error err_text_start_and_end_cannot_be_the_same)"
  by (rule same_start_and_end_rejected [of _ "''202203''"]) simp_all

text \<open>
  Claim C6 as stated fails: \<^verbatim>\<open>-s 2021-01 -e 2021-01\<close> passes the format check, and the
  checks then exit with \<^verbatim>\<open>err_text_start_and_end_cannot_be_the_same\<close>.
\<close>

theorem same_start_and_end_example:
  "validate_yearmonth_format ''2021-01'' = Inr ''202101'' \<and>
   check_datetime_input sample_utils
     (sample_namespace\<lparr>start_yearmonth := Some ''202101'', end_yearmonth := Some ''202101''\<rparr>)
   = Inl (exit_on_datetime_error err_text_start_and_end_cannot_be_the_same)"
  using sample_same sample_fmt by simp

text \<open>
  Claim C9. For every namespace whose \<^verbatim>\<open>start_yearmonth\<close> is falsy while
  \<^verbatim>\<open>end_yearmonth\<close> is set, \<^verbatim>\<open>check_for_now_in_yearmonth\<close> raises
  \<^verbatim>\<open>UnboundLocalError\<close>, a \<^verbatim>\<open>NameError\<close>, on its last line, and
  \<^verbatim>\<open>check_datetime_input\<close> ends with that uncaught exception, not with the
  \<^verbatim>\<open>SystemExit\<close> of \<^verbatim>\<open>exit_on_datetime_error\<close>.
\<close>

theorem end_without_start_raises_NameError:
  assumes "\<not> truthy_str (start_yearmonth ns)" and "truthy_str (end_yearmonth ns)"
  shows "check_for_now_in_yearmonth U ns = Inl (Uncaught (UnboundLocalError ''end_yearmonth'')) \<and>
         check_datetime_input U ns = Inl (Uncaught (UnboundLocalError ''end_yearmonth'')) \<and>
         is_NameError (UnboundLocalError ''end_yearmonth'')"
proof (intro conjI)
  show now: "check_for_now_in_yearmonth U ns = Inl (Uncaught (UnboundLocalError ''end_yearmonth''))"
    using assms by (simp add: check_for_now_in_yearmonth_def)
  have "check_for_start_in_yearmonth ns = Inr (start_yearmonth ns, end_yearmonth ns)"
    using assms by (simp add: check_for_start_in_yearmonth_def)
  then show "check_datetime_input U ns = Inl (Uncaught (UnboundLocalError ''end_yearmonth''))"
    using assms now by (simp add: check_datetime_input_def then_do_def set_yearmonths_same)
  show "is_NameError (UnboundLocalError ''end_yearmonth'')" by simp
qed

theorem end_without_start_raises_NameError_witness:
  "check_for_now_in_yearmonth sample_utils (sample_namespace\<lparr>end_yearmonth := Some ''202103''\<rparr>)
     = Inl (Uncaught (UnboundLocalError ''end_yearmonth'')) \<and>
   check_datetime_input sample_utils (sample_namespace\<lparr>end_yearmonth := Some ''202103''\<rparr>)
     = Inl (Uncaught (UnboundLocalError ''end_yearmonth'')) \<and>
   is_NameError (UnboundLocalError ''end_yearmonth'')"
  by (rule end_without_start_raises_NameError)
     (simp_all add: truthy_str_def sample_namespace_def ArgsNamespace_init_def)

text \<open>
  Claim C8. For all arguments, \<^verbatim>\<open>_HistDataCom.__init__\<close> ends with \<^verbatim>\<open>TypeError\<close> at
  its first statement, the call \<^verbatim>\<open>ArgParser(options)\<close>, having called no helper and
  built no collaborator: the constructor never completes.
\<close>

theorem HistDataCom_init_raises_TypeError:
  "HistDataCom_init E U argv parse_args records_current records_next csv_chunks_queue options
     = (Inl (Uncaught TypeError), [])"
  by (simp add: HistDataCom_init_def ArgParser_new_def HistDataCom_init_with_def)

section \<open>Properties of the constructor body and of \<^verbatim>\<open>run\<close>\<close>

lemma map_of_dict_setitem: "map_of (dict_setitem d k v) k' = (if k' = k then Some v else map_of d k')"
  by (simp add: dict_setitem_def update_conv')

lemma recording_simps:
  "urls_populate_initial_queue recording t = t @ [Call_populate_initial_queue]"
  "urls_validate_urls recording t = t @ [Call_validate_urls]"
  "urls_download_zips recording t = t @ [Call_download_zips]"
  "api_validate_jays recording t = t @ [Call_validate_jays]"
  "api_merge_jays recording t = ((), t @ [Call_merge_jays])"
  "csvs_extract_csvs recording t = t @ [Call_extract_csvs]"
  "influx_import_data recording t = t @ [Call_import_data]"
  by (simp_all add: recording_def)

lemma steps_ignore_clean_data:
  "run_validate_urls (self\<lparr>config_args := dict_setitem (config_args self) ''clean_data'' c\<rparr>) C
     = run_validate_urls self C"
  "run_download_data_archives
     (self\<lparr>config_args := dict_setitem (config_args self) ''clean_data'' c\<rparr>) C
     = run_download_data_archives self C"
  "run_extract_csvs (self\<lparr>config_args := dict_setitem (config_args self) ''clean_data'' c\<rparr>) C
     = run_extract_csvs self C"
  "run_import_to_influxdb
     (self\<lparr>config_args := dict_setitem (config_args self) ''clean_data'' c\<rparr>) C
     = run_import_to_influxdb self C"
  by (rule ext, simp add: run_validate_urls_def run_download_data_archives_def
      run_extract_csvs_def run_import_to_influxdb_def dict_getitem_def map_of_dict_setitem
      cong: if_cong sum.case_cong)+

lemma run_ignores_clean_data:
  "run (self\<lparr>config_args := dict_setitem (config_args self) ''clean_data'' c\<rparr>) C = run self C"
  by (simp add: run_def steps_ignore_clean_data)

lemma sample_args_lookup:
  "map_of (sample_args b) ''data_directory'' = Some (PyStr ''data'')"
  "map_of (sample_args b) ''import_to_influxdb'' = Some (PyBool b)"
  by (simp_all add: sample_args_def arg_list_to_set_def dict_keys_def vars_namespace_def
      sample_namespace_def ArgsNamespace_init_def dict_setitem_def str_or_none_def)

lemma sample_self_lookup:
  "map_of (config_args (sample_self b a)) ''validate_urls'' = Some (PyBool b)"
  "map_of (config_args (sample_self b a)) ''download_data_archives'' = Some (PyBool b)"
  "map_of (config_args (sample_self b a)) ''from_api'' = Some (PyBool a)"
  "map_of (config_args (sample_self b a)) ''extract_csvs'' = Some (PyBool b)"
  "map_of (config_args (sample_self b a)) ''import_to_influxdb'' = Some (PyBool b)"
  "truthy (PyBool b) \<longrightarrow> has_influx (sample_self b a)"
  by (simp_all add: sample_self_def)

text \<open>
  Lines 38 to 59 of the constructor, run on a settings dictionary with a boolean
  \<^verbatim>\<open>import_to_influxdb\<close>: they read the credentials and construct \<^verbatim>\<open>_Influx\<close> exactly
  when the flag is set, and fail when the flag is set and the credentials cannot be read.
  This is what the constructor would do if its first statement assigned a dictionary.
\<close>

lemma HistDataCom_init_settings_credentials:
  assumes dir: "map_of args ''data_directory'' = Some d"
    and flag: "map_of args ''import_to_influxdb'' = Some (PyBool b)"
  shows
   "(b \<and> load_influx_yaml E = Inr y \<longrightarrow>
       (\<exists>args'. HistDataCom_init_settings E args =
                  (Inr \<lparr>config_args = args', has_influx = True\<rparr>,
                   [Call_set_working_data_dir, Call_load_influx_yaml,
                    New_URLs, New_CSVs, New_API, New_Influx]) \<and>
                map_of args' ''INFLUX_ORG'' = Some (influxdb_org y) \<and>
                map_of args' ''INFLUX_BUCKET'' = Some (influxdb_bucket y) \<and>
                map_of args' ''INFLUX_URL'' = Some (influxdb_url y) \<and>
                map_of args' ''INFLUX_TOKEN'' = Some (influxdb_token y))) \<and>
    (b \<and> load_influx_yaml E = Inl out \<longrightarrow>
       HistDataCom_init_settings E args =
         (Inl out, [Call_set_working_data_dir, Call_load_influx_yaml])) \<and>
    (\<not> b \<longrightarrow>
       HistDataCom_init_settings E args =
         (Inr \<lparr>config_args =
                 dict_setitem
                   (dict_setitem args ''default_download_dir'' (set_working_data_dir E d))
                   ''queue_filename'' (PyStr ''.queue''),
               has_influx = False\<rparr>,
          [Call_set_working_data_dir, New_URLs, New_CSVs, New_API]))"
  using dir flag
  by (simp add: HistDataCom_init_settings_def dict_getitem_def map_of_dict_setitem Let_def)

text \<open>
  Claim C7 fails on the code. With \<^verbatim>\<open>import_to_influxdb\<close> set, lines 38 to 59 run on
  the dictionary of the namespace would read the credentials and construct \<^verbatim>\<open>_Influx\<close>;
  the constructor itself ends with \<^verbatim>\<open>TypeError\<close> at its first statement, so it calls
  neither \<^verbatim>\<open>load_influx_yaml\<close> nor \<^verbatim>\<open>_Influx\<close> and no object with settings exists.
\<close>

theorem constructor_never_reads_credentials_example:
  "import_to_influxdb (sample_namespace\<lparr>import_to_influxdb := True\<rparr>) \<and>
   snd (HistDataCom_init_with sample_env (Inr (sample_namespace\<lparr>import_to_influxdb := True\<rparr>)))
     = [Call_set_working_data_dir, Call_load_influx_yaml, New_URLs, New_CSVs, New_API, New_Influx] \<and>
   HistDataCom_init sample_env sample_utils [''histdatacom'', ''-I'']
       (Inr (sample_namespace\<lparr>import_to_influxdb := True\<rparr>)) () () () ()
     = (Inl (Uncaught TypeError), []) \<and>
   Call_load_influx_yaml \<notin> set (snd (HistDataCom_init sample_env sample_utils
       [''histdatacom'', ''-I'']
       (Inr (sample_namespace\<lparr>import_to_influxdb := True\<rparr>)) () () () ())) \<and>
   New_Influx \<notin> set (snd (HistDataCom_init sample_env sample_utils
       [''histdatacom'', ''-I'']
       (Inr (sample_namespace\<lparr>import_to_influxdb := True\<rparr>)) () () () ()))"
proof -
  have y: "load_influx_yaml sample_env =
          Inr \<lparr> influxdb_org = PyStr ''org'', influxdb_bucket = PyStr ''bucket'',
                influxdb_url = PyStr ''http://localhost:8086'', influxdb_token = PyStr ''token'' \<rparr>"
    by (simp add: sample_env_def)
  have "snd (HistDataCom_init_settings sample_env (sample_args True))
     = [Call_set_working_data_dir, Call_load_influx_yaml, New_URLs, New_CSVs, New_API, New_Influx]"
    using HistDataCom_init_settings_credentials [OF sample_args_lookup, of True sample_env] y
    by fastforce
  then have "snd (HistDataCom_init_with sample_env
                (Inr (sample_namespace\<lparr>import_to_influxdb := True\<rparr>)))
     = [Call_set_working_data_dir, Call_load_influx_yaml, New_URLs, New_CSVs, New_API, New_Influx]"
    by (simp add: HistDataCom_init_with_def sample_args_def)
  moreover have "HistDataCom_init sample_env sample_utils [''histdatacom'', ''-I'']
       (Inr (sample_namespace\<lparr>import_to_influxdb := True\<rparr>)) () () () ()
     = (Inl (Uncaught TypeError), [])"
    by (simp add: HistDataCom_init_def ArgParser_new_def HistDataCom_init_with_def)
  ultimately show ?thesis by simp
qed

text \<open>
  Claim C1, as amended. \<^verbatim>\<open>run\<close> first populates the initial queue, then calls, in this
  order, \<^verbatim>\<open>validate_urls\<close>, \<^verbatim>\<open>download_zips\<close>, \<^verbatim>\<open>extract_csvs\<close> and \<^verbatim>\<open>import_data\<close>,
  each exactly when its flag is truthy, except that when \<^verbatim>\<open>download_data_archives\<close> and
  \<^verbatim>\<open>from_api\<close> are both truthy it calls \<^verbatim>\<open>validate_jays\<close> and \<^verbatim>\<open>merge_jays\<close> after the
  download and returns, calling neither \<^verbatim>\<open>extract_csvs\<close> nor \<^verbatim>\<open>import_data\<close>. The flag
  \<^verbatim>\<open>clean_data\<close> is not read: \<^verbatim>\<open>run\<close> has no call for a clean stage.
\<close>

theorem run_calls:
  assumes "map_of (config_args self) ''validate_urls'' = Some v"
    and "map_of (config_args self) ''download_data_archives'' = Some d"
    and "map_of (config_args self) ''from_api'' = Some a"
    and "map_of (config_args self) ''extract_csvs'' = Some x"
    and "map_of (config_args self) ''import_to_influxdb'' = Some i"
    and "truthy i \<longrightarrow> has_influx self"
  shows
   "calls_of_run self =
      [Call_populate_initial_queue]
      @ (if truthy v then [Call_validate_urls] else [])
      @ (if truthy d then [Call_download_zips] else [])
      @ (if truthy d \<and> truthy a then [Call_validate_jays, Call_merge_jays]
         else (if truthy x then [Call_extract_csvs] else [])
              @ (if truthy i then [Call_import_data] else [])) \<and>
    calls_of_run (self\<lparr>config_args := dict_setitem (config_args self) ''clean_data'' c\<rparr>)
      = calls_of_run self"
proof
  show "calls_of_run (self\<lparr>config_args := dict_setitem (config_args self) ''clean_data'' c\<rparr>)
      = calls_of_run self"
    by (simp add: calls_of_run_def run_ignores_clean_data)
  show "calls_of_run self =
      [Call_populate_initial_queue]
      @ (if truthy v then [Call_validate_urls] else [])
      @ (if truthy d then [Call_download_zips] else [])
      @ (if truthy d \<and> truthy a then [Call_validate_jays, Call_merge_jays]
         else (if truthy x then [Call_extract_csvs] else [])
              @ (if truthy i then [Call_import_data] else []))"
    using assms
    by (simp add: calls_of_run_def run_def and_then_def
        run_populate_initial_queue_def run_validate_urls_def run_download_data_archives_def
        run_extract_csvs_def run_import_to_influxdb_def dict_getitem_def recording_simps)
qed

theorem run_calls_witness:
  "calls_of_run (sample_self True False) =
     [Call_populate_initial_queue, Call_validate_urls, Call_download_zips,
      Call_extract_csvs, Call_import_data] \<and>
   calls_of_run (sample_self True False
      \<lparr>config_args := dict_setitem (config_args (sample_self True False)) ''clean_data'' (PyBool False)\<rparr>)
    = calls_of_run (sample_self True False)"
  using run_calls [OF sample_self_lookup, of True False "PyBool False"] by simp

text \<open>
  Claim C1 as stated fails: with all five stage flags set and \<^verbatim>\<open>from_api\<close> set, \<^verbatim>\<open>run\<close>
  returns after \<^verbatim>\<open>merge_jays\<close>; the enabled extract and load stages are not invoked.
\<close>

theorem run_skips_enabled_stages_example:
  "truthy (PyBool True) \<and>
   map_of (config_args (sample_self True True)) ''extract_csvs'' = Some (PyBool True) \<and>
   map_of (config_args (sample_self True True)) ''import_to_influxdb'' = Some (PyBool True) \<and>
   calls_of_run (sample_self True True) =
     [Call_populate_initial_queue, Call_validate_urls, Call_download_zips,
      Call_validate_jays, Call_merge_jays] \<and>
   Call_extract_csvs \<notin> set (calls_of_run (sample_self True True)) \<and>
   Call_import_data \<notin> set (calls_of_run (sample_self True True))"
  by (simp add: sample_self_def calls_of_run_def run_def and_then_def
        run_populate_initial_queue_def run_validate_urls_def run_download_data_archives_def
        run_extract_csvs_def run_import_to_influxdb_def dict_getitem_def recording_simps)

text \<open>
  Claim C3. A statement of \<^verbatim>\<open>run\<close> whose flag is falsy hands the record queues on
  exactly as it received them, whatever the collaborators are; \<^verbatim>\<open>run\<close> is the same
  whatever \<^verbatim>\<open>clean_data\<close> holds; and outside the API branch the queues that leave
  \<^verbatim>\<open>run\<close> are the queues after the initial population passed through the enabled
  stages only, in order.
\<close>

theorem disabled_stage_is_identity:
  "(map_of (config_args self) ''validate_urls'' = Some v \<and> \<not> truthy v \<longrightarrow>
      run_validate_urls self C s = (Continue, s)) \<and>
   (map_of (config_args self) ''download_data_archives'' = Some d \<and> \<not> truthy d \<longrightarrow>
      run_download_data_archives self C s = (Continue, s)) \<and>
   (map_of (config_args self) ''extract_csvs'' = Some x \<and> \<not> truthy x \<longrightarrow>
      run_extract_csvs self C s = (Continue, s)) \<and>
   (map_of (config_args self) ''import_to_influxdb'' = Some i \<and> \<not> truthy i \<longrightarrow>
      run_import_to_influxdb self C s = (Continue, s)) \<and>
   run (self\<lparr>config_args := dict_setitem (config_args self) ''clean_data'' c\<rparr>) C s
     = run self C s \<and>
   (map_of (config_args self) ''validate_urls'' = Some v \<and>
    map_of (config_args self) ''download_data_archives'' = Some d \<and>
    map_of (config_args self) ''from_api'' = Some a \<and> \<not> truthy a \<and>
    map_of (config_args self) ''extract_csvs'' = Some x \<and>
    map_of (config_args self) ''import_to_influxdb'' = Some i \<and>
    (truthy i \<longrightarrow> has_influx self) \<longrightarrow>
      run self C s =
        (Continue,
         (if truthy i then influx_import_data C else id)
          ((if truthy x then csvs_extract_csvs C else id)
            ((if truthy d then urls_download_zips C else id)
              ((if truthy v then urls_validate_urls C else id)
                (urls_populate_initial_queue C s))))))"
proof (intro conjI impI)
  show "run (self\<lparr>config_args := dict_setitem (config_args self) ''clean_data'' c\<rparr>) C s
     = run self C s"
    by (simp add: run_ignores_clean_data)
qed (simp_all add: run_def and_then_def
      run_populate_initial_queue_def run_validate_urls_def run_download_data_archives_def
      run_extract_csvs_def run_import_to_influxdb_def dict_getitem_def)

theorem disabled_stage_is_identity_witness:
  "run_validate_urls (sample_self False False) recording [] = (Continue, []) \<and>
   run_download_data_archives (sample_self False False) recording [] = (Continue, []) \<and>
   run_extract_csvs (sample_self False False) recording [] = (Continue, []) \<and>
   run_import_to_influxdb (sample_self False False) recording [] = (Continue, []) \<and>
   run (sample_self False False) recording [] = (Continue, [Call_populate_initial_queue])"
  using disabled_stage_is_identity
    [of "sample_self False False" "PyBool False" recording "[]" "PyBool False" "PyBool False"
        "PyBool False" "PyBool False" "PyBool False"]
    sample_self_lookup [of False False]
  by (simp add: recording_simps)

end
